theory Spec2Isabelle
  imports Complex_Main
begin

section \<open>Python strings\<close>

text \<open>
  A Python \<open>str\<close> is modelled as a HOL \<open>string\<close>. The food names and the keys of the
  reference table are ASCII; on ASCII text \<open>str.lower\<close> maps \<open>A..Z\<close> to \<open>a..z\<close> and
  \<open>str.split()\<close> cuts at runs of the white-space characters 9..13, 28..31 and 32.
\<close>

definition lower_char :: "char \<Rightarrow> char" where
  "lower_char c =
     (let n = (of_char c :: nat) in if 65 \<le> n \<and> n \<le> 90 then char_of (n + 32) else c)"

definition lower :: "string \<Rightarrow> string" where
  "lower s = map lower_char s"

definition is_space :: "char \<Rightarrow> bool" where
  "is_space c =
     (let n = (of_char c :: nat) in (9 \<le> n \<and> n \<le> 13) \<or> (28 \<le> n \<and> n \<le> 32))"

text \<open>\<open>split_acc cur s\<close>: the words of \<open>s\<close>, \<open>cur\<close> being the word read so far.\<close>

fun split_acc :: "string \<Rightarrow> string \<Rightarrow> string list" where
  "split_acc cur [] = (if cur = [] then [] else [cur])"
| "split_acc cur (c # cs) =
     (if is_space c then (if cur = [] then split_acc [] cs else cur # split_acc [] cs)
      else split_acc (cur @ [c]) cs)"

definition split :: "string \<Rightarrow> string list" where
  "split s = split_acc [] s"

text \<open>\<open>starts_with p s\<close> is \<open>s.startswith(p)\<close>; \<open>str_in p s\<close> is Python's \<open>p in s\<close>.\<close>

fun starts_with :: "string \<Rightarrow> string \<Rightarrow> bool" where
  "starts_with [] s = True"
| "starts_with (x # xs) [] = False"
| "starts_with (x # xs) (y # ys) = (x = y \<and> starts_with xs ys)"

fun str_in :: "string \<Rightarrow> string \<Rightarrow> bool" where
  "str_in p [] = (p = [])"
| "str_in p (c # cs) = (starts_with p (c # cs) \<or> str_in p cs)"

section \<open>The glycemic index reference table\<close>

text \<open>
  \<open>GLYCEMIC_INDEX_MAP\<close> of \<open>glycemic_index_data.py\<close>, as the association list of the
  dict literal: a Python dict iterates in insertion order, and the literal has no key
  twice, so the list is both the lookup table and the iteration order of \<open>.items()\<close>.
\<close>

definition GLYCEMIC_INDEX_MAP :: "(string \<times> int) list" where
  "GLYCEMIC_INDEX_MAP = [
    (''apple'', 36),
    (''pear'', 38),
    (''orange'', 43),
    (''grapefruit'', 25),
    (''cherries'', 22),
    (''plum'', 39),
    (''peach'', 42),
    (''strawberries'', 40),
    (''strawberry'', 40),
    (''blackberries'', 25),
    (''raspberries'', 32),
    (''blueberries'', 53),
    (''grapes'', 46),
    (''kiwi'', 53),
    (''avocado'', 15),
    (''mango'', 60),
    (''papaya'', 59),
    (''pineapple'', 59),
    (''cantaloupe'', 65),
    (''raisins'', 64),
    (''watermelon'', 72),
    (''dates'', 103),
    (''broccoli'', 15),
    (''cauliflower'', 15),
    (''spinach'', 15),
    (''lettuce'', 15),
    (''kale'', 15),
    (''cabbage'', 10),
    (''mushroom'', 15),
    (''tomato'', 15),
    (''cucumber'', 15),
    (''bell pepper'', 15),
    (''pepper'', 15),
    (''asparagus'', 15),
    (''celery'', 15),
    (''zucchini'', 15),
    (''eggplant'', 15),
    (''green beans'', 15),
    (''carrots'', 35),
    (''carrot'', 35),
    (''sweet potato'', 54),
    (''yam'', 54),
    (''corn'', 60),
    (''beets'', 61),
    (''beetroot'', 61),
    (''potato'', 85),
    (''russet potato'', 85),
    (''instant mashed potato'', 87),
    (''pumpkin'', 75),
    (''quinoa'', 53),
    (''steel cut oats'', 42),
    (''oatmeal'', 55),
    (''oats'', 55),
    (''barley'', 28),
    (''bulgur'', 48),
    (''buckwheat'', 54),
    (''brown rice'', 68),
    (''basmati rice'', 58),
    (''couscous'', 65),
    (''wild rice'', 57),
    (''white rice'', 73),
    (''jasmine rice'', 89),
    (''instant rice'', 87),
    (''rice cakes'', 82),
    (''cornflakes'', 81),
    (''corn flakes'', 81),
    (''rice krispies'', 82),
    (''cheerios'', 74),
    (''instant oatmeal'', 79),
    (''whole grain bread'', 51),
    (''whole wheat bread'', 54),
    (''sourdough bread'', 54),
    (''rye bread'', 51),
    (''pumpernickel'', 46),
    (''ezekiel bread'', 36),
    (''pita bread'', 57),
    (''naan'', 62),
    (''croissant'', 67),
    (''white bread'', 75),
    (''french bread'', 95),
    (''baguette'', 95),
    (''bagel'', 72),
    (''english muffin'', 77),
    (''hamburger bun'', 75),
    (''hot dog bun'', 75),
    (''whole wheat pasta'', 42),
    (''pasta'', 49),
    (''spaghetti'', 49),
    (''fettuccine'', 47),
    (''linguine'', 49),
    (''ravioli'', 39),
    (''tortellini'', 50),
    (''soba noodles'', 46),
    (''rice noodles'', 61),
    (''udon noodles'', 62),
    (''instant noodles'', 70),
    (''overcooked pasta'', 70),
    (''lentils'', 32),
    (''chickpeas'', 28),
    (''garbanzo beans'', 28),
    (''black beans'', 30),
    (''kidney beans'', 24),
    (''pinto beans'', 39),
    (''navy beans'', 31),
    (''soybeans'', 16),
    (''split peas'', 25),
    (''hummus'', 6),
    (''milk'', 31),
    (''skim milk'', 32),
    (''whole milk'', 27),
    (''yogurt'', 33),
    (''greek yogurt'', 11),
    (''plain yogurt'', 14),
    (''cottage cheese'', 10),
    (''cheese'', 0),
    (''cheddar'', 0),
    (''mozzarella'', 0),
    (''parmesan'', 0),
    (''butter'', 0),
    (''ice cream'', 61),
    (''frozen yogurt'', 65),
    (''chicken'', 0),
    (''beef'', 0),
    (''pork'', 0),
    (''fish'', 0),
    (''salmon'', 0),
    (''tuna'', 0),
    (''shrimp'', 0),
    (''eggs'', 0),
    (''egg'', 0),
    (''tofu'', 15),
    (''tempeh'', 15),
    (''almonds'', 15),
    (''almond'', 15),
    (''walnuts'', 15),
    (''walnut'', 15),
    (''cashews'', 22),
    (''cashew'', 22),
    (''peanuts'', 14),
    (''peanut'', 14),
    (''pistachios'', 15),
    (''pecans'', 10),
    (''macadamia'', 10),
    (''chia seeds'', 1),
    (''flax seeds'', 1),
    (''pumpkin seeds'', 10),
    (''sunflower seeds'', 35),
    (''dark chocolate'', 23),
    (''nuts'', 15),
    (''popcorn'', 55),
    (''milk chocolate'', 49),
    (''potato chips'', 56),
    (''tortilla chips'', 63),
    (''pretzels'', 83),
    (''crackers'', 74),
    (''rice crackers'', 91),
    (''jelly beans'', 78),
    (''gummy bears'', 78),
    (''donuts'', 76),
    (''donut'', 76),
    (''cookies'', 77),
    (''oreos'', 77),
    (''cake'', 73),
    (''muffin'', 71),
    (''water'', 0),
    (''coffee'', 0),
    (''tea'', 0),
    (''diet soda'', 0),
    (''almond milk'', 25),
    (''soy milk'', 34),
    (''orange juice'', 50),
    (''apple juice'', 41),
    (''cranberry juice'', 68),
    (''soda'', 70),
    (''cola'', 70),
    (''coca-cola'', 70),
    (''pepsi'', 70),
    (''sprite'', 70),
    (''gatorade'', 78),
    (''energy drink'', 70),
    (''french fries'', 75),
    (''fries'', 75),
    (''pizza'', 60),
    (''hamburger'', 66),
    (''cheeseburger'', 66),
    (''burrito'', 55),
    (''taco'', 52),
    (''fried chicken'', 70),
    (''pancakes'', 67),
    (''waffles'', 76),
    (''french toast'', 75),
    (''granola'', 61),
    (''muesli'', 56),
    (''ketchup'', 55),
    (''bbq sauce'', 70),
    (''honey'', 61),
    (''maple syrup'', 54),
    (''jam'', 65),
    (''peanut butter'', 14),
    (''nutella'', 55)
  ]"

section \<open>The glycemic index estimator\<close>

text \<open>
  The \<open>if/elif\<close> chain "special cases for restaurant foods" of \<open>find_gi_for_food\<close>
  (\<open>update_glycemic_index.py\<close>), on the lower-cased name. \<open>any(term in food_lower for
  term in [...])\<close> is \<open>list_ex\<close> over the list of terms.
\<close>

definition special_cases :: "string \<Rightarrow> int option" where
  "special_cases food_lower =
    (if list_ex (\<lambda>term. str_in term food_lower) [''burger'', ''cheeseburger'', ''hamburger'']
       then Some 66
     else if str_in ''pizza'' food_lower then Some 60
     else if list_ex (\<lambda>term. str_in term food_lower) [''fries'', ''french fries''] then Some 75
     else if str_in ''salad'' food_lower \<and> \<not> str_in ''pasta'' food_lower then Some 15
     else if str_in ''grilled chicken'' food_lower \<or> str_in ''grilled fish'' food_lower
       then Some 0
     else if list_ex (\<lambda>term. str_in term food_lower) [''donut'', ''doughnut''] then Some 76
     else if str_in ''pancake'' food_lower then Some 67
     else if str_in ''waffle'' food_lower then Some 76
     else if str_in ''taco'' food_lower then Some 52
     else if str_in ''burrito'' food_lower then Some 55
     else if str_in ''sandwich'' food_lower then
       (if str_in ''whole wheat'' food_lower \<or> str_in ''whole grain'' food_lower then Some 54
        else Some 70)
     else if str_in ''wrap'' food_lower then Some 57
     else if str_in ''rice'' food_lower then
       (if str_in ''brown'' food_lower then Some 68
        else if str_in ''fried'' food_lower then Some 75
        else Some 73)
     else if str_in ''pasta'' food_lower \<or> str_in ''spaghetti'' food_lower
             \<or> str_in ''fettuccine'' food_lower then Some 49
     else if str_in ''noodle'' food_lower then
       (if str_in ''rice'' food_lower then Some 61 else Some 55)
     else if str_in ''bread'' food_lower then
       (if list_ex (\<lambda>term. str_in term food_lower) [''whole wheat'', ''whole grain'', ''rye'']
          then Some 51
        else Some 75)
     else if str_in ''coffee'' food_lower \<and> \<not> str_in ''frapp'' food_lower then Some 0
     else if str_in ''tea'' food_lower \<and> \<not> str_in ''sweet'' food_lower then Some 0
     else if list_ex (\<lambda>term. str_in term food_lower) [''soda'', ''cola'', ''pepsi'', ''sprite'']
       then Some 70
     else if str_in ''juice'' food_lower then Some 50
     else if str_in ''smoothie'' food_lower then Some 55
     else if str_in ''shake'' food_lower then Some 61
     else if str_in ''ice cream'' food_lower then Some 61
     else if str_in ''cookie'' food_lower then Some 77
     else if str_in ''cake'' food_lower then Some 73
     else if str_in ''muffin'' food_lower then Some 71
     else if str_in ''bagel'' food_lower then Some 72
     else if str_in ''croissant'' food_lower then Some 67
     else if str_in ''chips'' food_lower then
       (if str_in ''potato'' food_lower then Some 56
        else if str_in ''tortilla'' food_lower then Some 63
        else Some 60)
     else if str_in ''wings'' food_lower \<or> str_in ''chicken tender'' food_lower then
       (if str_in ''fried'' food_lower \<or> str_in ''buffalo'' food_lower then Some 70
        else Some 0)
     else if str_in ''soup'' food_lower then
       (if str_in ''lentil'' food_lower \<or> str_in ''bean'' food_lower then Some 30
        else Some 40)
     else if str_in ''pho'' food_lower then Some 40
     else if str_in ''banh mi'' food_lower then Some 75
     else None)"

text \<open>
  \<open>find_gi_in table food_name\<close> is the body of \<open>find_gi_for_food\<close> with the module-level
  dict as the parameter \<open>table\<close> (its items in iteration order). The argument is
  \<open>None\<close> or a string; \<open>if not food_name\<close> catches \<open>None\<close> and the empty string. Each
  \<open>return\<close> inside a loop leaves the function, so each loop is the search for its first
  hit.
\<close>

definition find_gi_in :: "(string \<times> int) list \<Rightarrow> string option \<Rightarrow> int option" where
  "find_gi_in table food_name =
    (case food_name of
       None \<Rightarrow> None
     | Some name \<Rightarrow>
        if name = [] then None
        else
          let food_lower = lower name in
          case map_of table food_lower of
            Some v \<Rightarrow> Some v
          | None \<Rightarrow>
             (case find (\<lambda>word. map_of table word \<noteq> None) (split food_lower) of
                Some word \<Rightarrow> map_of table word
              | None \<Rightarrow>
                 (case find (\<lambda>(gi_food, gi_value). str_in gi_food food_lower) table of
                    Some (gi_food, gi_value) \<Rightarrow> Some gi_value
                  | None \<Rightarrow> special_cases food_lower)))"

definition find_gi_for_food :: "string option \<Rightarrow> int option" where
  "find_gi_for_food food_name = find_gi_in GLYCEMIC_INDEX_MAP food_name"

subsection \<open>The cascade as the specification words it\<close>

text \<open>
  The specification describes the estimator as an ordered cascade in which the first
  match wins. \<open>first_some\<close> is "first match wins" over a list of stage results; the four
  stages follow the specification's wording, and stage 4 is an explicit ordered list of
  (predicate, value) pairs, each nested \<open>if\<close> of the source flattened into consecutive
  rules.
\<close>

fun first_some :: "'a option list \<Rightarrow> 'a option" where
  "first_some [] = None"
| "first_some (Some v # rs) = Some v"
| "first_some (None # rs) = first_some rs"

definition stage_exact :: "(string \<times> int) list \<Rightarrow> string \<Rightarrow> int option" where
  "stage_exact table l = map_of table l"

definition stage_token :: "(string \<times> int) list \<Rightarrow> string \<Rightarrow> int option" where
  "stage_token table l = first_some (map (map_of table) (split l))"

definition stage_substring :: "(string \<times> int) list \<Rightarrow> string \<Rightarrow> int option" where
  "stage_substring table l =
     first_some (map (\<lambda>(key, v). if str_in key l then Some v else None) table)"

definition has :: "string \<Rightarrow> string \<Rightarrow> bool" where
  "has term l = str_in term l"

definition fallback_rules :: "((string \<Rightarrow> bool) \<times> int) list" where
  "fallback_rules =
    [(\<lambda>l. has ''burger'' l \<or> has ''cheeseburger'' l \<or> has ''hamburger'' l, 66),
     (\<lambda>l. has ''pizza'' l, 60),
     (\<lambda>l. has ''fries'' l \<or> has ''french fries'' l, 75),
     (\<lambda>l. has ''salad'' l \<and> \<not> has ''pasta'' l, 15),
     (\<lambda>l. has ''grilled chicken'' l \<or> has ''grilled fish'' l, 0),
     (\<lambda>l. has ''donut'' l \<or> has ''doughnut'' l, 76),
     (\<lambda>l. has ''pancake'' l, 67),
     (\<lambda>l. has ''waffle'' l, 76),
     (\<lambda>l. has ''taco'' l, 52),
     (\<lambda>l. has ''burrito'' l, 55),
     (\<lambda>l. has ''sandwich'' l \<and> (has ''whole wheat'' l \<or> has ''whole grain'' l), 54),
     (\<lambda>l. has ''sandwich'' l, 70),
     (\<lambda>l. has ''wrap'' l, 57),
     (\<lambda>l. has ''rice'' l \<and> has ''brown'' l, 68),
     (\<lambda>l. has ''rice'' l \<and> has ''fried'' l, 75),
     (\<lambda>l. has ''rice'' l, 73),
     (\<lambda>l. has ''pasta'' l \<or> has ''spaghetti'' l \<or> has ''fettuccine'' l, 49),
     (\<lambda>l. has ''noodle'' l \<and> has ''rice'' l, 61),
     (\<lambda>l. has ''noodle'' l, 55),
     (\<lambda>l. has ''bread'' l
            \<and> (has ''whole wheat'' l \<or> has ''whole grain'' l \<or> has ''rye'' l), 51),
     (\<lambda>l. has ''bread'' l, 75),
     (\<lambda>l. has ''coffee'' l \<and> \<not> has ''frapp'' l, 0),
     (\<lambda>l. has ''tea'' l \<and> \<not> has ''sweet'' l, 0),
     (\<lambda>l. has ''soda'' l \<or> has ''cola'' l \<or> has ''pepsi'' l \<or> has ''sprite'' l, 70),
     (\<lambda>l. has ''juice'' l, 50),
     (\<lambda>l. has ''smoothie'' l, 55),
     (\<lambda>l. has ''shake'' l, 61),
     (\<lambda>l. has ''ice cream'' l, 61),
     (\<lambda>l. has ''cookie'' l, 77),
     (\<lambda>l. has ''cake'' l, 73),
     (\<lambda>l. has ''muffin'' l, 71),
     (\<lambda>l. has ''bagel'' l, 72),
     (\<lambda>l. has ''croissant'' l, 67),
     (\<lambda>l. has ''chips'' l \<and> has ''potato'' l, 56),
     (\<lambda>l. has ''chips'' l \<and> has ''tortilla'' l, 63),
     (\<lambda>l. has ''chips'' l, 60),
     (\<lambda>l. (has ''wings'' l \<or> has ''chicken tender'' l)
            \<and> (has ''fried'' l \<or> has ''buffalo'' l), 70),
     (\<lambda>l. has ''wings'' l \<or> has ''chicken tender'' l, 0),
     (\<lambda>l. has ''soup'' l \<and> (has ''lentil'' l \<or> has ''bean'' l), 30),
     (\<lambda>l. has ''soup'' l, 40),
     (\<lambda>l. has ''pho'' l, 40),
     (\<lambda>l. has ''banh mi'' l, 75)]"

definition stage_fallback :: "string \<Rightarrow> int option" where
  "stage_fallback l =
     first_some (map (\<lambda>(pred, v). if pred l then Some v else None) fallback_rules)"

definition gi_cascade :: "(string \<times> int) list \<Rightarrow> string \<Rightarrow> int option" where
  "gi_cascade table l =
     first_some [stage_exact table l, stage_token table l, stage_substring table l,
                 stage_fallback l]"

section \<open>Python numbers\<close>

text \<open>
  The numbers the scripts compute with are Python \<open>int\<close>s (unbounded) and \<open>float\<close>s
  (IEEE 754 doubles). A float is modelled by its exact value, a rational; \<open>fl q\<close> is
  the double nearest to \<open>q\<close>, ties to even, with 53 significant bits. The exponent
  range is not bounded in the model: overflow to infinity, subnormal numbers, NaN and the
  sign of zero are left out, which is exact for the magnitudes of nutrition data.
\<close>

datatype pynum = PInt int | PFloat rat

datatype py_error = ZeroDivisionError | KeyError | AttributeError | IntegrityError
  | OperationalError | InterfaceError

definition round_half_even :: "rat \<Rightarrow> int" where
  "round_half_even q =
     (let f = \<lfloor>q\<rfloor>; d = q - of_int f
      in if d < 1 / 2 then f else if 1 / 2 < d then f + 1 else if even f then f else f + 1)"

text \<open>\<open>bit_length n\<close> is Python's \<open>n.bit_length()\<close>.\<close>

fun bit_length :: "nat \<Rightarrow> nat" where
  "bit_length n = (if n = 0 then 0 else Suc (bit_length (n div 2)))"

declare bit_length.simps [simp del]

definition pow2 :: "int \<Rightarrow> rat" where
  "pow2 e = (if 0 \<le> e then 2 ^ nat e else 1 / 2 ^ nat (- e))"

text \<open>\<open>binexp q\<close> is the binary exponent of \<open>q \<noteq> 0\<close>: \<open>2 ^ binexp q \<le> \<bar>q\<bar> < 2 ^ (binexp q + 1)\<close>.\<close>

definition binexp :: "rat \<Rightarrow> int" where
  "binexp q =
     (let (a, b) = quotient_of \<bar>q\<bar>;
          e = int (bit_length (nat a)) - int (bit_length (nat b))
      in if \<bar>q\<bar> < pow2 e then e - 1 else e)"

definition fl :: "rat \<Rightarrow> rat" where
  "fl q = (if q = 0 then 0
           else let u = pow2 (binexp q - 52) in of_int (round_half_even (q / u)) * u)"

text \<open>The mathematical value of a number, as \<open>==\<close> and \<open><\<close> compare it.\<close>

definition num_val :: "pynum \<Rightarrow> rat" where
  "num_val x = (case x of PInt n \<Rightarrow> of_int n | PFloat q \<Rightarrow> q)"

text \<open>The conversion of an operand to \<open>float\<close> in mixed arithmetic.\<close>

definition float_of :: "pynum \<Rightarrow> rat" where
  "float_of x = (case x of PInt n \<Rightarrow> fl (of_int n) | PFloat q \<Rightarrow> q)"





section \<open>The glycemic load calculator\<close>


section \<open>The unit conversions of the Chipotle importer\<close>





section \<open>Properties of the estimator\<close>

lemma list_ex_unfold:
  "list_ex P [] = False" "list_ex P (x # xs) = (P x \<or> list_ex P xs)"
  by simp_all

lemma first_some_if:
  "first_some ((if b then Some v else None) # rs) = (if b then Some v else first_some rs)"
  by simp

lemma first_some_Cons:
  "first_some (r # rs) = (case r of Some v \<Rightarrow> Some v | None \<Rightarrow> first_some rs)"
  by (cases r) simp_all

lemma first_some_None_iff: "first_some rs = None \<longleftrightarrow> (\<forall>r \<in> set rs. r = None)"
  by (induction rs rule: first_some.induct) auto

lemma flat_if2:
  "(if a then (if b then x else y) else z) = (if a \<and> b then x else if a then y else z)"
  by simp

lemma flat_if3:
  "(if a then (if b then x else if c then y else w) else z)
   = (if a \<and> b then x else if a \<and> c then y else if a then w else z)"
  by simp

text \<open>The \<open>if/elif\<close> chain of the source is the first matching rule of the ordered list.\<close>

lemma special_cases_fallback: "special_cases l = stage_fallback l"
  unfolding special_cases_def stage_fallback_def fallback_rules_def has_def
  by (simp only: list.map prod.case first_some_if first_some.simps list_ex_unfold
      flat_if3 flat_if2 simp_thms disj_assoc)

lemma token_scan:
  "(case find (\<lambda>word. map_of t word \<noteq> None) ws of
      Some word \<Rightarrow> map_of t word | None \<Rightarrow> x)
   = (case first_some (map (map_of t) ws) of Some v \<Rightarrow> Some v | None \<Rightarrow> x)"
  by (induction ws) (auto split: option.splits)

lemma substring_scan:
  "(case find (\<lambda>(k, v). str_in k l) t of Some (k, v) \<Rightarrow> Some v | None \<Rightarrow> x)
   = (case first_some (map (\<lambda>(k, v). if str_in k l then Some v else None) t) of
        Some v \<Rightarrow> Some v | None \<Rightarrow> x)"
  by (induction t) (auto split: option.splits)

lemma cascade_nonempty:
  assumes ne: "name \<noteq> []"
  shows "find_gi_in t (Some name) = gi_cascade t (lower name)"
proof -
  let ?l = "lower name"
  have "find_gi_in t (Some name) =
     (case map_of t ?l of Some v \<Rightarrow> Some v | None \<Rightarrow>
       (case first_some (map (map_of t) (split ?l)) of Some v \<Rightarrow> Some v | None \<Rightarrow>
         (case first_some (map (\<lambda>(k, v). if str_in k ?l then Some v else None) t) of
            Some v \<Rightarrow> Some v | None \<Rightarrow> stage_fallback ?l)))"
    using ne unfolding find_gi_in_def Let_def
    unfolding token_scan substring_scan special_cases_fallback
    by simp
  also have "\<dots> = gi_cascade t ?l"
    unfolding gi_cascade_def stage_exact_def stage_token_def stage_substring_def
    by (simp add: first_some_Cons split: option.splits)
  finally show ?thesis .
qed

lemma cascade_empty: "gi_cascade GLYCEMIC_INDEX_MAP [] = None"
  by code_simp

lemma brown_rice_bowl_stages:
  "stage_exact GLYCEMIC_INDEX_MAP ''brown rice bowl'' = None
   \<and> stage_token GLYCEMIC_INDEX_MAP ''brown rice bowl'' = None
   \<and> stage_substring GLYCEMIC_INDEX_MAP ''brown rice bowl'' = Some 68"
  by code_simp

text \<open>
  C4. For every name the estimator returns what the ordered cascade returns on the
  lower-cased name: the exact match if there is one, else the first matching token from
  the left, else the first table key (in table order) that is a substring, else the first
  matching fallback rule, else nothing. \<open>Taco\<close> gives 52 and \<open>Brown Rice Bowl\<close> gives 68.
\<close>

theorem find_gi_for_food_cascade:
  "find_gi_for_food (Some name) = gi_cascade GLYCEMIC_INDEX_MAP (lower name)
   \<and> find_gi_for_food (Some ''Taco'') = Some 52
   \<and> find_gi_for_food (Some ''Brown Rice Bowl'') = Some 68"
proof (intro conjI)
  show "find_gi_for_food (Some name) = gi_cascade GLYCEMIC_INDEX_MAP (lower name)"
  proof (cases "name = []")
    case True
    then show ?thesis
      by (simp add: find_gi_for_food_def find_gi_in_def lower_def cascade_empty)
  next
    case False
    then show ?thesis
      unfolding find_gi_for_food_def by (rule cascade_nonempty)
  qed
  show "find_gi_for_food (Some ''Taco'') = Some 52"
    by code_simp
  show "find_gi_for_food (Some ''Brown Rice Bowl'') = Some 68"
    by code_simp
qed

text \<open>
  C7, as the specification states it: \<open>Frosted Flakes\<close> is estimated at 74. The
  estimator does not return 74.
\<close>

theorem frosted_flakes_not_74:
  "find_gi_for_food (Some ''Frosted Flakes'') \<noteq> Some 74"
  by code_simp

text \<open>
  C7, amended. The table has the cereal keys \<open>cornflakes\<close>, \<open>corn flakes\<close> and
  \<open>cheerios\<close>, none of which occurs in \<open>frosted flakes\<close>: no stage matches and the
  estimate is absent.
\<close>

theorem frosted_flakes_absent:
  "find_gi_for_food (Some ''Frosted Flakes'') = None
   \<and> stage_exact GLYCEMIC_INDEX_MAP ''frosted flakes'' = None
   \<and> stage_token GLYCEMIC_INDEX_MAP ''frosted flakes'' = None
   \<and> stage_substring GLYCEMIC_INDEX_MAP ''frosted flakes'' = None
   \<and> stage_fallback ''frosted flakes'' = None"
  by code_simp

subsection \<open>Dependence on the order of the table\<close>

lemma stage_substring_None_iff:
  "stage_substring t l = None \<longleftrightarrow> (\<forall>(k, v) \<in> set t. \<not> str_in k l)"
  unfolding stage_substring_def first_some_None_iff by (auto split: if_splits)

text \<open>
  Two enumerations of the same dict (the same items, each key once) give the same exact
  and token lookups, and stage 3 finds something in one exactly if it does in the other.
\<close>

lemma gi_cascade_order:
  assumes d1: "distinct (map fst t1)" and d2: "distinct (map fst t2)" and s: "set t1 = set t2"
  shows "gi_cascade t1 l = gi_cascade t2 l
     \<or> (stage_exact t2 l = None \<and> stage_token t2 l = None \<and> stage_substring t2 l \<noteq> None)"
proof -
  have m: "map_of t1 = map_of t2"
    using map_of_inject_set [OF d1 d2] s by simp
  have e: "stage_exact t1 l = stage_exact t2 l" and k: "stage_token t1 l = stage_token t2 l"
    by (simp_all add: stage_exact_def stage_token_def m)
  show ?thesis
  proof (cases "stage_substring t2 l = None")
    case True
    then have "stage_substring t1 l = None"
      unfolding stage_substring_None_iff s .
    with True show ?thesis
      by (simp add: gi_cascade_def e k)
  next
    case False
    then show ?thesis
      by (cases "stage_exact t2 l"; cases "stage_token t2 l") (simp_all add: gi_cascade_def e k)
  qed
qed

lemma find_gi_in_order:
  assumes d1: "distinct (map fst t1)" and d2: "distinct (map fst t2)" and s: "set t1 = set t2"
  shows "find_gi_in t1 (Some name) = find_gi_in t2 (Some name)
     \<or> (stage_exact t2 (lower name) = None \<and> stage_token t2 (lower name) = None
          \<and> stage_substring t2 (lower name) \<noteq> None)"
proof (cases "name = []")
  case True
  then show ?thesis by (simp add: find_gi_in_def)
next
  case False
  then show ?thesis
    using gi_cascade_order [OF d1 d2 s, of "lower name"] by (simp add: cascade_nonempty)
qed

lemma GLYCEMIC_INDEX_MAP_distinct: "distinct (map fst GLYCEMIC_INDEX_MAP)"
  by code_simp

text \<open>
  C9. A call reads nothing but its argument and the module-level table, which Python
  iterates in the order of the dict literal; \<open>find_gi_for_food\<close> is that function of the
  name, so two calls with one string return one value. What the result owes to the
  order is stage 3 alone: for every enumeration \<open>t\<close> of the same table, the estimate
  computed over \<open>t\<close> is the estimate of the code unless the name reaches stage 3 and
  a key matches there; and in stage 3 the order does decide, as the reversed table shows
  on \<open>applepear\<close> (36 by the code, 38 over the reversed table).
\<close>

theorem find_gi_for_food_order_fixed:
  "(distinct (map fst t) \<and> set t = set GLYCEMIC_INDEX_MAP \<longrightarrow>
      find_gi_in t (Some name) = find_gi_for_food (Some name)
      \<or> (stage_exact GLYCEMIC_INDEX_MAP (lower name) = None
          \<and> stage_token GLYCEMIC_INDEX_MAP (lower name) = None
          \<and> stage_substring GLYCEMIC_INDEX_MAP (lower name) \<noteq> None))
   \<and> find_gi_for_food (Some ''applepear'') = Some 36
   \<and> find_gi_in (rev GLYCEMIC_INDEX_MAP) (Some ''applepear'') = Some 38"
proof (intro conjI impI)
  assume a: "distinct (map fst t) \<and> set t = set GLYCEMIC_INDEX_MAP"
  show "find_gi_in t (Some name) = find_gi_for_food (Some name)
      \<or> (stage_exact GLYCEMIC_INDEX_MAP (lower name) = None
          \<and> stage_token GLYCEMIC_INDEX_MAP (lower name) = None
          \<and> stage_substring GLYCEMIC_INDEX_MAP (lower name) \<noteq> None)"
  proof -
    from a have d: "distinct (map fst t)" and s: "set t = set GLYCEMIC_INDEX_MAP"
      by simp_all
    show ?thesis
      unfolding find_gi_for_food_def
      by (rule find_gi_in_order [OF d GLYCEMIC_INDEX_MAP_distinct s])
  qed
next
  show "find_gi_for_food (Some ''applepear'') = Some 36"
    by code_simp
next
  show "find_gi_in (rev GLYCEMIC_INDEX_MAP) (Some ''applepear'') = Some 38"
    by code_simp
qed

theorem find_gi_for_food_order_fixed_witness:
  "distinct (map fst (rev GLYCEMIC_INDEX_MAP))
   \<and> set (rev GLYCEMIC_INDEX_MAP) = set GLYCEMIC_INDEX_MAP
   \<and> find_gi_in (rev GLYCEMIC_INDEX_MAP) (Some ''Pear Tart'') = find_gi_for_food (Some ''Pear Tart'')
   \<and> stage_token GLYCEMIC_INDEX_MAP (lower ''Pear Tart'') = Some 38"
proof -
  have d: "distinct (map fst (rev GLYCEMIC_INDEX_MAP))"
    using GLYCEMIC_INDEX_MAP_distinct by (simp add: rev_map [symmetric])
  have k: "stage_token GLYCEMIC_INDEX_MAP (lower ''Pear Tart'') = Some 38"
    by code_simp
  from d k show ?thesis
    using find_gi_for_food_order_fixed [of "rev GLYCEMIC_INDEX_MAP" "''Pear Tart''"]
    by simp
qed

section \<open>Properties of the number model\<close>

lemma round_half_even_nonneg: "0 \<le> q \<Longrightarrow> 0 \<le> round_half_even q"
  unfolding round_half_even_def Let_def by auto

lemma round_half_even_nonpos:
  assumes "q \<le> 0" shows "round_half_even q \<le> 0"
proof -
  have f: "\<lfloor>q\<rfloor> \<le> 0" using floor_mono [OF assms] by simp
  show ?thesis
  proof (cases "\<lfloor>q\<rfloor> = 0")
    case True
    then have "0 \<le> q" by (metis of_int_0 of_int_floor_le)
    with assms have "q = 0" by simp
    then show ?thesis by (simp add: round_half_even_def)
  next
    case False
    with f have "\<lfloor>q\<rfloor> + 1 \<le> 0" by linarith
    with f show ?thesis unfolding round_half_even_def Let_def by auto
  qed
qed


lemma pow2_pos: "0 < pow2 e"
  by (simp add: pow2_def)

lemma fl_0: "fl 0 = 0"
  by (simp add: fl_def)

lemma fl_nonneg: "0 \<le> q \<Longrightarrow> 0 \<le> fl q"
  unfolding fl_def Let_def
  by (auto intro!: mult_nonneg_nonneg round_half_even_nonneg divide_nonneg_nonneg
      simp: less_imp_le [OF pow2_pos])

lemma fl_nonpos: "q \<le> 0 \<Longrightarrow> fl q \<le> 0"
  unfolding fl_def Let_def
  by (auto intro!: mult_nonpos_nonneg round_half_even_nonpos divide_nonpos_nonneg
      simp: less_imp_le [OF pow2_pos])

lemma float_of_nonneg: "0 \<le> num_val x \<Longrightarrow> 0 \<le> float_of x"
  by (cases x) (simp_all add: num_val_def float_of_def fl_nonneg)

lemma float_of_nonpos: "num_val x \<le> 0 \<Longrightarrow> float_of x \<le> 0"
  by (cases x) (simp_all add: num_val_def float_of_def fl_nonpos)

lemma float_of_0: "num_val x = 0 \<Longrightarrow> float_of x = 0"
  by (cases x) (simp_all add: num_val_def float_of_def fl_0)








section \<open>Properties of the glycemic load calculator\<close>






section \<open>Properties of the unit conversions\<close>






end

